theory Spec2Isabelle
  imports Complex_Main
begin

section \<open>Cobra Shot cooldown-reduction accounting (CobraShot.tsx)\<close>

text \<open>
  The analyzer \<open>CobraShot\<close> listens to the casts of Cobra Shot (the feeder ability) and
  keeps four running totals about the cooldown reduction these casts give to Kill Command
  (the target ability). This theory embeds its handler \<open>onCobraShotCast\<close> and its getters.

  JavaScript numbers are modelled as real numbers with exact arithmetic: rounding of doubles,
  \<open>NaN\<close> and the infinities are outside the model. The two cast counters only ever grow by
  one from zero and are natural numbers. Resource amounts are whole numbers, as in the
  combat log.
\<close>

type_synonym number = real

subsection \<open>Number formatting of the language\<close>

definition digit_char :: "nat \<Rightarrow> char" where
  "digit_char d = ''0123456789'' ! (d mod 10)"

fun decimal :: "nat \<Rightarrow> string" where
  "decimal n = (if n < 10 then [digit_char n] else decimal (n div 10) @ [digit_char (n mod 10)])"

declare decimal.simps [simp del]

text \<open>
  \<open>Number.prototype.toFixed(1)\<close>: the sign, then the integer \<open>n\<close> with \<open>n / 10\<close> nearest
  to the magnitude (the larger one on a tie), printed with one digit after the point.
\<close>

definition toFixed1 :: "number \<Rightarrow> string" where
  "toFixed1 x =
     (let s = (if x < 0 then ''-'' else '''');
          n = nat \<lfloor>\<bar>x\<bar> * 10 + 1 / 2\<rfloor>
      in s @ decimal (n div 10) @ ''.'' @ [digit_char (n mod 10)])"

text \<open>String concatenation with a whole number: \<open>'' + amount\<close>.\<close>

definition numberToString :: "int \<Rightarrow> string" where
  "numberToString i = (if i < 0 then ''-'' else '''') @ decimal (nat \<bar>i\<bar>)"

subsection \<open>Data model\<close>

text \<open>
  The \<open>meta\<close> annotation of an event is a mutable object. Objects live in a store (a list,
  an object's reference is its index); an event holds a reference or \<open>undefined\<close>.
  \<open>otherProps\<close> stands for whatever further properties an annotation object carries.
\<close>

type_synonym ref = nat

record 'x Meta =
  isInefficientCast :: "bool option"
  inefficientCastReason :: "string option"
  otherProps :: "string \<rightharpoonup> 'x"

record ClassResource =
  rtype :: nat
  amount :: int

record CastEvent =
  timestamp :: number
  classResources :: "ClassResource list option"
  meta :: "ref option"

text \<open>The fields of the analyzer instance.\<close>

record CobraShot =
  effectiveKCReductionMs :: number
  wastedKCReductionMs :: number
  wastedCasts :: nat
  casts :: nat

definition CobraShot_init :: CobraShot where
  "CobraShot_init =
     \<lparr>effectiveKCReductionMs = 0, wastedKCReductionMs = 0, wastedCasts = 0, casts = 0\<rparr>"

text \<open>
  The imported constants and identifiers (\<open>../../constants\<close>, \<open>SPELLS\<close>, \<open>RESOURCE_TYPES\<close>)
  are not among the sources; the handler takes them as a parameter.
\<close>

record Constants =
  COBRA_SHOT_CDR_MS :: number
  COBRA_SHOT_FOCUS_THRESHOLD_TO_WAIT :: int
  KILL_COMMAND_CAST_BM_id :: nat
  COBRA_SHOT_id :: nat
  FOCUS_id :: nat

text \<open>
  The two dependencies \<open>spellUsable\<close> and \<open>globalCooldown\<close> are objects of classes that are
  not among the sources. The handler is written against their interface: the methods it
  calls, over the state types \<open>'s\<close> and \<open>'g\<close> of the two objects. \<open>reduceCooldown\<close> returns the
  amount it reports as applied together with the tracker's new state.
\<close>

record ('s, 'g) Deps =
  isOnCooldown :: "'s \<Rightarrow> nat \<Rightarrow> bool"
  cooldownRemaining :: "'s \<Rightarrow> nat \<Rightarrow> number"
  reduceCooldown :: "'s \<Rightarrow> nat \<Rightarrow> number \<Rightarrow> number \<times> 's"
  getGlobalCooldownDuration :: "'g \<Rightarrow> nat \<Rightarrow> number"

text \<open>
  One entry of the log of \<open>reduceCooldown\<close> calls: the spell and the amount passed. The
  log is bookkeeping of the model, so that "which reductions were commanded" is a value.
\<close>

record ReduceCall =
  callSpellId :: nat
  callReductionMs :: number

record ('s, 'g, 'x) World =
  self :: CobraShot
  spellUsable :: 's
  globalCooldown :: 'g
  heap :: "'x Meta list"
  reduceCalls :: "ReduceCall list"

subsection \<open>The handler\<close>

definition freshMeta :: "'x Meta" where
  "freshMeta =
     \<lparr>isInefficientCast = Some False, inefficientCastReason = Some '''', otherProps = Map.empty\<rparr>"

text \<open>
  \<open>event.meta.isInefficientCast = true; event.meta.inefficientCastReason = reason\<close> on the
  object behind reference \<open>r\<close>.
\<close>

definition markInefficient :: "ref \<Rightarrow> string \<Rightarrow> 'x Meta list \<Rightarrow> 'x Meta list" where
  "markInefficient r reason h =
     h[r := (h ! r)\<lparr>isInefficientCast := Some True, inefficientCastReason := Some reason\<rparr>]"

definition notOnCooldownReason :: string where
  "notOnCooldownReason = ''Cobra Shot cast while Kill Command is not on cooldown.''"

definition lowFocusReason :: "Constants \<Rightarrow> number \<Rightarrow> int \<Rightarrow> string" where
  "lowFocusReason cfg globalCooldownMs focus =
     ''Cobra Shot cast while Kill Command's cooldown was under ''
     @ toFixed1 (globalCooldownMs + COBRA_SHOT_CDR_MS cfg / 1000)
     @ ''s remaining and you were not close to capping focus as you only had ''
     @ numberToString focus @ '' focus.''"

text \<open>
  The first statement of the handler: an event without annotation gets a new object,
  \<open>{ isInefficientCast: false, inefficientCastReason: '' }\<close>. The result is the reference
  that \<open>event.meta\<close> holds afterwards and the store.
\<close>

definition ensureMeta :: "CastEvent \<Rightarrow> 'x Meta list \<Rightarrow> ref \<times> 'x Meta list" where
  "ensureMeta event h =
     (case meta event of
        None \<Rightarrow> (length h, h @ [freshMeta])
      | Some r0 \<Rightarrow> (r0, h))"

text \<open>An event's annotation reference, when it has one, points into the store.\<close>

definition metaLive :: "'x Meta list \<Rightarrow> CastEvent \<Rightarrow> bool" where
  "metaLive h event = (case meta event of None \<Rightarrow> True | Some r0 \<Rightarrow> r0 < length h)"

definition onCobraShotCast ::
  "Constants \<Rightarrow> ('s, 'g) Deps \<Rightarrow> CastEvent \<Rightarrow> ('s, 'g, 'x) World
     \<Rightarrow> CastEvent \<times> ('s, 'g, 'x) World" where
  "onCobraShotCast cfg deps event w =
     (let (r, h) = ensureMeta event (heap w);
          event1 = event\<lparr>meta := Some r\<rparr>;
          self1 = (self w)\<lparr>casts := casts (self w) + 1\<rparr>
      in
      if \<not> isOnCooldown deps (spellUsable w) (KILL_COMMAND_CAST_BM_id cfg) then
        (event1,
         w\<lparr>self := self1\<lparr>wastedCasts := wastedCasts self1 + 1,
                         wastedKCReductionMs := wastedKCReductionMs self1 + COBRA_SHOT_CDR_MS cfg\<rparr>,
           heap := markInefficient r notOnCooldownReason h\<rparr>)
      else
        let globalCooldownDuration =
              getGlobalCooldownDuration deps (globalCooldown w) (COBRA_SHOT_id cfg);
            killCommandCooldownRemaining =
              cooldownRemaining deps (spellUsable w) (KILL_COMMAND_CAST_BM_id cfg)
        in
        if killCommandCooldownRemaining < COBRA_SHOT_CDR_MS cfg + globalCooldownDuration then
          let effectiveReductionMs = killCommandCooldownRemaining - globalCooldownDuration;
              (applied, su) = reduceCooldown deps (spellUsable w) (KILL_COMMAND_CAST_BM_id cfg)
                                effectiveReductionMs;
              call = \<lparr>callSpellId = KILL_COMMAND_CAST_BM_id cfg,
                      callReductionMs = effectiveReductionMs\<rparr>;
              self2 = self1\<lparr>effectiveKCReductionMs := effectiveKCReductionMs self1 + applied,
                            wastedKCReductionMs := wastedKCReductionMs self1
                                                     + (COBRA_SHOT_CDR_MS cfg - effectiveReductionMs)\<rparr>;
              w2 = w\<lparr>self := self2, spellUsable := su, heap := h,
                     reduceCalls := reduceCalls w @ [call]\<rparr>
          in
          case (case classResources event of
                  None \<Rightarrow> None
                | Some rs \<Rightarrow> find (\<lambda>resource. rtype resource = FOCUS_id cfg) rs) of
            None \<Rightarrow> (event1, w2)
          | Some resource \<Rightarrow>
              if amount resource < COBRA_SHOT_FOCUS_THRESHOLD_TO_WAIT cfg then
                (event1,
                 w2\<lparr>heap := markInefficient r
                              (lowFocusReason cfg globalCooldownDuration (amount resource)) h\<rparr>)
              else (event1, w2)
        else
          let (applied, su) = reduceCooldown deps (spellUsable w) (KILL_COMMAND_CAST_BM_id cfg)
                                (COBRA_SHOT_CDR_MS cfg);
              call = \<lparr>callSpellId = KILL_COMMAND_CAST_BM_id cfg,
                      callReductionMs = COBRA_SHOT_CDR_MS cfg\<rparr>
          in (event1,
              w\<lparr>self := self1\<lparr>effectiveKCReductionMs := effectiveKCReductionMs self1 + applied\<rparr>,
                spellUsable := su, heap := h,
                reduceCalls := reduceCalls w @ [call]\<rparr>))"

subsection \<open>The getters\<close>

definition totalPossibleCDR :: "Constants \<Rightarrow> CobraShot \<Rightarrow> number" where
  "totalPossibleCDR cfg a = max (of_nat (casts a) * COBRA_SHOT_CDR_MS cfg) 1"

definition wastedCDR :: "CobraShot \<Rightarrow> number" where
  "wastedCDR a = wastedKCReductionMs a / 1000"

text \<open>The field \<open>actual\<close> of \<open>cdrEfficiencyCobraShotThreshold\<close>.\<close>

definition cdrEfficiencyCobraShotThreshold_actual :: "Constants \<Rightarrow> CobraShot \<Rightarrow> number" where
  "cdrEfficiencyCobraShotThreshold_actual cfg a = effectiveKCReductionMs a / totalPossibleCDR cfg a"

text \<open>The field \<open>actual\<close> of \<open>wastedCobraShotsThreshold\<close>.\<close>

definition wastedCobraShotsThreshold_actual :: "CobraShot \<Rightarrow> nat" where
  "wastedCobraShotsThreshold_actual a = wastedCasts a"

subsection \<open>Replaying a sequence of casts\<close>

text \<open>
  The handler runs once per Cobra Shot cast, in the order of the log. Between two casts
  the rest of the analysis moves the two dependencies on (time passes, Kill Command is
  cast, haste changes); a step of the replay carries that change and the cast event. The
  analyzer's own fields are touched by the handler only.
\<close>

record ('s, 'g) Step =
  elapse :: "'s \<times> 'g \<Rightarrow> 's \<times> 'g"
  cast :: CastEvent

definition beforeCast :: "('s, 'g) Step \<Rightarrow> ('s, 'g, 'x) World \<Rightarrow> ('s, 'g, 'x) World" where
  "beforeCast st w =
     (let (su, g) = elapse st (spellUsable w, globalCooldown w)
      in w\<lparr>spellUsable := su, globalCooldown := g\<rparr>)"

fun replay ::
  "Constants \<Rightarrow> ('s, 'g) Deps \<Rightarrow> ('s, 'g, 'x) World \<Rightarrow> ('s, 'g) Step list \<Rightarrow> ('s, 'g, 'x) World" where
  "replay cfg deps w [] = w"
| "replay cfg deps w (st # sts) =
     replay cfg deps (snd (onCobraShotCast cfg deps (cast st) (beforeCast st w))) sts"

text \<open>The number of casts of a replay at which Kill Command was on cooldown.\<close>

fun castsOnCooldown ::
  "Constants \<Rightarrow> ('s, 'g) Deps \<Rightarrow> ('s, 'g, 'x) World \<Rightarrow> ('s, 'g) Step list \<Rightarrow> nat" where
  "castsOnCooldown cfg deps w [] = 0"
| "castsOnCooldown cfg deps w (st # sts) =
     (if isOnCooldown deps (spellUsable (beforeCast st w)) (KILL_COMMAND_CAST_BM_id cfg)
      then 1 else 0)
     + castsOnCooldown cfg deps (snd (onCobraShotCast cfg deps (cast st) (beforeCast st w))) sts"

subsection \<open>A cooldown tracker and example values\<close>

text \<open>
  Modelled from the spec: the cooldown tracker \<open>SpellUsable\<close> (\<open>isOnCooldown(id)\<close>,
  \<open>cooldownRemaining(id)\<close>, \<open>reduceCooldown(id, amountMs) -> appliedMs\<close>) is missing from the
  sources. Its state gives each spell on cooldown its remaining time. A reduction is
  applied to the remaining time and the amount actually applied is reported, which is
  less than requested when the remaining time is shorter: the cooldown then ends.
\<close>

type_synonym tracker = "nat \<rightharpoonup> number"

definition tracker_isOnCooldown :: "tracker \<Rightarrow> nat \<Rightarrow> bool" where
  "tracker_isOnCooldown s spellId = (s spellId \<noteq> None)"

definition tracker_cooldownRemaining :: "tracker \<Rightarrow> nat \<Rightarrow> number" where
  "tracker_cooldownRemaining s spellId = (case s spellId of None \<Rightarrow> 0 | Some remaining \<Rightarrow> remaining)"

definition tracker_reduceCooldown :: "tracker \<Rightarrow> nat \<Rightarrow> number \<Rightarrow> number \<times> tracker" where
  "tracker_reduceCooldown s spellId reductionMs =
     (case s spellId of
        None \<Rightarrow> (0, s)
      | Some remaining \<Rightarrow>
          if remaining < reductionMs then (remaining, s(spellId := None))
          else (reductionMs, s(spellId \<mapsto> remaining - reductionMs)))"

text \<open>
  Modelled from the spec: the global-cooldown lookup \<open>GlobalCooldown\<close> is missing from the
  sources; its state here is the duration it answers for every spell.
\<close>

definition trackerDeps :: "(tracker, number) Deps" where
  "trackerDeps =
     \<lparr>isOnCooldown = tracker_isOnCooldown,
      cooldownRemaining = tracker_cooldownRemaining,
      reduceCooldown = tracker_reduceCooldown,
      getGlobalCooldownDuration = (\<lambda>g spellId. g)\<rparr>"

text \<open>
  Example constants: a reduction of one second per cast (the comment of the class:
  "Reduces the cooldown of Kill Command by 1 sec"), a focus threshold of 50, and the
  identifiers of Kill Command, Cobra Shot and focus.
\<close>

definition exampleConstants :: Constants where
  "exampleConstants =
     \<lparr>COBRA_SHOT_CDR_MS = 1000, COBRA_SHOT_FOCUS_THRESHOLD_TO_WAIT = 50,
      KILL_COMMAND_CAST_BM_id = 34026, COBRA_SHOT_id = 193455, FOCUS_id = 2\<rparr>"

text \<open>
  An example world: nothing counted yet, Kill Command with the given remaining cooldown
  (\<open>None\<close>: not on cooldown), the given global cooldown, an empty store and log.
\<close>

definition exampleWorld :: "number option \<Rightarrow> number \<Rightarrow> (tracker, number, unit) World" where
  "exampleWorld remaining gcdMs =
     \<lparr>self = CobraShot_init,
      spellUsable = (\<lambda>spellId. if spellId = 34026 then remaining else None),
      globalCooldown = gcdMs, heap = [], reduceCalls = []\<rparr>"

definition exampleEvent :: "int option \<Rightarrow> CastEvent" where
  "exampleEvent focus =
     \<lparr>timestamp = 0,
      classResources = (case focus of None \<Rightarrow> None
                        | Some f \<Rightarrow> Some [\<lparr>rtype = 2, amount = f\<rparr>]),
      meta = None\<rparr>"

text \<open>
  An example step of a replay: by the time of the cast, Kill Command has the given
  remaining cooldown (\<open>None\<close>: it is not on cooldown).
\<close>

definition exampleStep :: "number option \<Rightarrow> int option \<Rightarrow> (tracker, number) Step" where
  "exampleStep remaining focus =
     \<lparr>elapse = (\<lambda>(s, g). (s(34026 := remaining), g)), cast = exampleEvent focus\<rparr>"

section \<open>Properties\<close>

subsection \<open>Evaluation lemmas\<close>

lemma decimal_digit: "n < 10 \<Longrightarrow> decimal n = [digit_char n]"
  by (simp add: decimal.simps)

lemma decimal_step: "10 \<le> n \<Longrightarrow> decimal n = decimal (n div 10) @ [digit_char (n mod 10)]"
  by (subst decimal.simps) simp

lemmas example_defs =
  exampleConstants_def exampleWorld_def exampleEvent_def trackerDeps_def CobraShot_init_def
  tracker_isOnCooldown_def tracker_cooldownRemaining_def tracker_reduceCooldown_def

subsection \<open>The three branches of the handler\<close>

text \<open>
  C1. A cast while Kill Command is on cooldown with a remaining cooldown strictly below the
  reduction per cast plus the global cooldown of Cobra Shot: the handler computes the
  effective reduction as remaining cooldown minus global cooldown, calls \<open>reduceCooldown\<close>
  on Kill Command with exactly that amount (once), adds the amount the tracker reports as
  applied to the effective total, and adds the full reduction minus the computed effective
  reduction to the wasted total. With 2000 ms remaining, a global cooldown of 1500 ms and a
  reduction of 1000 ms this is 500 ms effective and 500 ms wasted (the witness).
\<close>

theorem overflow_cast_accounting:
  assumes "isOnCooldown deps (spellUsable w) (KILL_COMMAND_CAST_BM_id cfg)"
    and "remaining = cooldownRemaining deps (spellUsable w) (KILL_COMMAND_CAST_BM_id cfg)"
    and "gcdMs = getGlobalCooldownDuration deps (globalCooldown w) (COBRA_SHOT_id cfg)"
    and "remaining < COBRA_SHOT_CDR_MS cfg + gcdMs"
    and "reduceCooldown deps (spellUsable w) (KILL_COMMAND_CAST_BM_id cfg) (remaining - gcdMs)
           = (applied, su')"
    and "onCobraShotCast cfg deps event w = (event', w')"
  shows "reduceCalls w' = reduceCalls w @
           [\<lparr>callSpellId = KILL_COMMAND_CAST_BM_id cfg, callReductionMs = remaining - gcdMs\<rparr>]
       \<and> spellUsable w' = su'
       \<and> effectiveKCReductionMs (self w') = effectiveKCReductionMs (self w) + applied
       \<and> wastedKCReductionMs (self w')
           = wastedKCReductionMs (self w) + (COBRA_SHOT_CDR_MS cfg - (remaining - gcdMs))
       \<and> casts (self w') = casts (self w) + 1
       \<and> wastedCasts (self w') = wastedCasts (self w)"
  using assms
  by (auto simp: onCobraShotCast_def Let_def split: prod.splits option.splits if_splits)

theorem overflow_cast_accounting_witness:
  "tracker_isOnCooldown (spellUsable (exampleWorld (Some 2000) 1500)) 34026
   \<and> (2000::real) < 1000 + 1500
   \<and> tracker_reduceCooldown (spellUsable (exampleWorld (Some 2000) 1500)) 34026 (2000 - 1500)
       = (500, (spellUsable (exampleWorld (Some 2000) 1500))(34026 \<mapsto> 1500))
   \<and> reduceCalls (snd (onCobraShotCast exampleConstants trackerDeps (exampleEvent None)
                     (exampleWorld (Some 2000) 1500)))
       = [\<lparr>callSpellId = 34026, callReductionMs = 500\<rparr>]
   \<and> effectiveKCReductionMs (self (snd (onCobraShotCast exampleConstants trackerDeps
         (exampleEvent None) (exampleWorld (Some 2000) 1500)))) = 500
   \<and> wastedKCReductionMs (self (snd (onCobraShotCast exampleConstants trackerDeps
         (exampleEvent None) (exampleWorld (Some 2000) 1500)))) = 500"
proof -
  let ?w = "exampleWorld (Some 2000) 1500"
  let ?res = "onCobraShotCast exampleConstants trackerDeps (exampleEvent None) ?w"
  have on: "isOnCooldown trackerDeps (spellUsable ?w) (KILL_COMMAND_CAST_BM_id exampleConstants)"
    by (simp add: example_defs)
  have rem: "(2000::real) = cooldownRemaining trackerDeps (spellUsable ?w)
               (KILL_COMMAND_CAST_BM_id exampleConstants)"
    by (simp add: example_defs)
  have g: "(1500::real) = getGlobalCooldownDuration trackerDeps (globalCooldown ?w)
               (COBRA_SHOT_id exampleConstants)"
    by (simp add: example_defs)
  have lt: "(2000::real) < COBRA_SHOT_CDR_MS exampleConstants + 1500"
    by (simp add: example_defs)
  have red: "reduceCooldown trackerDeps (spellUsable ?w) (KILL_COMMAND_CAST_BM_id exampleConstants)
               (2000 - 1500) = (500, (spellUsable ?w)(34026 \<mapsto> 1500))"
    by (simp add: example_defs)
  have res: "?res = (fst ?res, snd ?res)"
    by simp
  show ?thesis
    using overflow_cast_accounting [OF on rem g lt red res] on red
    by (simp add: example_defs)
qed

text \<open>
  C2. A cast while Kill Command is not on cooldown: the total-cast counter and the
  wasted-cast counter grow by one, the full reduction per cast is added to the wasted
  total, the event's annotation is marked inefficient with the fixed reason, and the
  handler stops: no \<open>reduceCooldown\<close> call is made and the tracker is left as it was.
\<close>

theorem wasted_cast_accounting:
  assumes "\<not> isOnCooldown deps (spellUsable w) (KILL_COMMAND_CAST_BM_id cfg)"
    and "metaLive (heap w) event"
    and "onCobraShotCast cfg deps event w = (event', w')"
  shows "casts (self w') = casts (self w) + 1
       \<and> wastedCasts (self w') = wastedCasts (self w) + 1
       \<and> wastedKCReductionMs (self w') = wastedKCReductionMs (self w) + COBRA_SHOT_CDR_MS cfg
       \<and> effectiveKCReductionMs (self w') = effectiveKCReductionMs (self w)
       \<and> (\<exists>r. meta event' = Some r \<and> r < length (heap w')
              \<and> isInefficientCast (heap w' ! r) = Some True
              \<and> inefficientCastReason (heap w' ! r)
                  = Some ''Cobra Shot cast while Kill Command is not on cooldown.'')
       \<and> reduceCalls w' = reduceCalls w
       \<and> spellUsable w' = spellUsable w"
  using assms
  by (auto simp: onCobraShotCast_def Let_def ensureMeta_def metaLive_def markInefficient_def
      notOnCooldownReason_def nth_append split: prod.splits option.splits if_splits)

theorem wasted_cast_accounting_witness:
  "\<not> tracker_isOnCooldown (spellUsable (exampleWorld None 1500)) 34026
   \<and> metaLive (heap (exampleWorld None 1500)) (exampleEvent (Some 80))
   \<and> self (snd (onCobraShotCast exampleConstants trackerDeps (exampleEvent (Some 80))
              (exampleWorld None 1500)))
       = \<lparr>effectiveKCReductionMs = 0, wastedKCReductionMs = 1000, wastedCasts = 1, casts = 1\<rparr>
   \<and> reduceCalls (snd (onCobraShotCast exampleConstants trackerDeps (exampleEvent (Some 80))
              (exampleWorld None 1500))) = []
   \<and> meta (fst (onCobraShotCast exampleConstants trackerDeps (exampleEvent (Some 80))
              (exampleWorld None 1500))) = Some 0
   \<and> isInefficientCast (heap (snd (onCobraShotCast exampleConstants trackerDeps
              (exampleEvent (Some 80)) (exampleWorld None 1500))) ! 0) = Some True"
proof -
  let ?w = "exampleWorld None 1500"
  let ?res = "onCobraShotCast exampleConstants trackerDeps (exampleEvent (Some 80)) ?w"
  have off: "\<not> isOnCooldown trackerDeps (spellUsable ?w) (KILL_COMMAND_CAST_BM_id exampleConstants)"
    by (simp add: example_defs)
  have live: "metaLive (heap ?w) (exampleEvent (Some 80))"
    by (simp add: metaLive_def example_defs)
  have res: "?res = (fst ?res, snd ?res)"
    by simp
  have init: "self ?w = \<lparr>effectiveKCReductionMs = 0, wastedKCReductionMs = 0, wastedCasts = 0, casts = 0\<rparr>"
      "reduceCalls ?w = []" "heap ?w = []" "COBRA_SHOT_CDR_MS exampleConstants = 1000"
    by (simp_all add: example_defs)
  have ev: "meta (fst ?res) = Some 0"
    by (simp add: onCobraShotCast_def Let_def ensureMeta_def example_defs split: prod.splits)
  have off': "\<not> tracker_isOnCooldown (spellUsable ?w) 34026"
    using off by (simp add: trackerDeps_def exampleConstants_def)
  note accounting = wasted_cast_accounting [OF off live res]
  from accounting have counters: "self (snd ?res)
       = \<lparr>effectiveKCReductionMs = 0, wastedKCReductionMs = 1000, wastedCasts = 1, casts = 1\<rparr>"
    by (cases "self (snd ?res)") (simp add: init)
  from accounting have calls: "reduceCalls (snd ?res) = []"
    by (simp add: init)
  from accounting ev have marked: "isInefficientCast (heap (snd ?res) ! 0) = Some True"
    by auto
  show ?thesis
    using off' live counters calls ev marked by simp
qed

text \<open>
  C3. A cast while Kill Command is on cooldown with a remaining cooldown of at least the
  reduction per cast plus the global cooldown: the handler calls \<open>reduceCooldown\<close> with the
  full reduction per cast (once), adds the amount the tracker reports as applied to the
  effective total, and leaves the wasted total and the wasted-cast counter unchanged.
\<close>

theorem full_reduction_cast_accounting:
  assumes "isOnCooldown deps (spellUsable w) (KILL_COMMAND_CAST_BM_id cfg)"
    and "remaining = cooldownRemaining deps (spellUsable w) (KILL_COMMAND_CAST_BM_id cfg)"
    and "gcdMs = getGlobalCooldownDuration deps (globalCooldown w) (COBRA_SHOT_id cfg)"
    and "COBRA_SHOT_CDR_MS cfg + gcdMs \<le> remaining"
    and "reduceCooldown deps (spellUsable w) (KILL_COMMAND_CAST_BM_id cfg) (COBRA_SHOT_CDR_MS cfg)
           = (applied, su')"
    and "onCobraShotCast cfg deps event w = (event', w')"
  shows "reduceCalls w' = reduceCalls w @
           [\<lparr>callSpellId = KILL_COMMAND_CAST_BM_id cfg, callReductionMs = COBRA_SHOT_CDR_MS cfg\<rparr>]
       \<and> spellUsable w' = su'
       \<and> effectiveKCReductionMs (self w') = effectiveKCReductionMs (self w) + applied
       \<and> wastedKCReductionMs (self w') = wastedKCReductionMs (self w)
       \<and> wastedCasts (self w') = wastedCasts (self w)
       \<and> casts (self w') = casts (self w) + 1
       \<and> heap w' = snd (ensureMeta event (heap w))"
  using assms
  by (auto simp: onCobraShotCast_def Let_def split: prod.splits option.splits if_splits)

theorem full_reduction_cast_accounting_witness:
  "tracker_isOnCooldown (spellUsable (exampleWorld (Some 4000) 1500)) 34026
   \<and> (1000::real) + 1500 \<le> 4000
   \<and> tracker_reduceCooldown (spellUsable (exampleWorld (Some 4000) 1500)) 34026 1000
       = (1000, (spellUsable (exampleWorld (Some 4000) 1500))(34026 \<mapsto> 3000))
   \<and> reduceCalls (snd (onCobraShotCast exampleConstants trackerDeps (exampleEvent (Some 10))
                     (exampleWorld (Some 4000) 1500)))
       = [\<lparr>callSpellId = 34026, callReductionMs = 1000\<rparr>]
   \<and> self (snd (onCobraShotCast exampleConstants trackerDeps (exampleEvent (Some 10))
                     (exampleWorld (Some 4000) 1500)))
       = \<lparr>effectiveKCReductionMs = 1000, wastedKCReductionMs = 0, wastedCasts = 0, casts = 1\<rparr>"
proof -
  let ?w = "exampleWorld (Some 4000) 1500"
  let ?res = "onCobraShotCast exampleConstants trackerDeps (exampleEvent (Some 10)) ?w"
  have on: "isOnCooldown trackerDeps (spellUsable ?w) (KILL_COMMAND_CAST_BM_id exampleConstants)"
    by (simp add: example_defs)
  have rem: "(4000::real) = cooldownRemaining trackerDeps (spellUsable ?w)
               (KILL_COMMAND_CAST_BM_id exampleConstants)"
    by (simp add: example_defs)
  have g: "(1500::real) = getGlobalCooldownDuration trackerDeps (globalCooldown ?w)
               (COBRA_SHOT_id exampleConstants)"
    by (simp add: example_defs)
  have ge: "COBRA_SHOT_CDR_MS exampleConstants + 1500 \<le> (4000::real)"
    by (simp add: example_defs)
  have red: "reduceCooldown trackerDeps (spellUsable ?w) (KILL_COMMAND_CAST_BM_id exampleConstants)
               (COBRA_SHOT_CDR_MS exampleConstants) = (1000, (spellUsable ?w)(34026 \<mapsto> 3000))"
    by (simp add: example_defs)
  have res: "?res = (fst ?res, snd ?res)"
    by simp
  have init: "self ?w = \<lparr>effectiveKCReductionMs = 0, wastedKCReductionMs = 0, wastedCasts = 0, casts = 0\<rparr>"
      "reduceCalls ?w = []" "COBRA_SHOT_CDR_MS exampleConstants = 1000"
      "KILL_COMMAND_CAST_BM_id exampleConstants = 34026"
    by (simp_all add: example_defs)
  have on': "tracker_isOnCooldown (spellUsable ?w) 34026"
    using on by (simp add: trackerDeps_def exampleConstants_def)
  have red': "tracker_reduceCooldown (spellUsable ?w) 34026 1000
       = (1000, (spellUsable ?w)(34026 \<mapsto> 3000))"
    using red by (simp add: trackerDeps_def exampleConstants_def)
  show ?thesis
    using full_reduction_cast_accounting [OF on rem g ge red res] on' red'
    by (cases "self (snd ?res)") (simp add: init)
qed

text \<open>
  C6. There are casts at which the computed effective reduction is negative and reaches
  the tracker as it is: whenever Kill Command is on cooldown with a remaining cooldown
  strictly below the global cooldown of Cobra Shot (and the reduction per cast is not
  negative), the overflow branch is taken, remaining minus global cooldown is negative, and
  that very amount is the argument of the \<open>reduceCooldown\<close> call. The witness is such a cast:
  500 ms remaining under a global cooldown of 1500 ms commands a reduction of -1000 ms.
\<close>

theorem negative_reduction_passed_unclamped:
  assumes "isOnCooldown deps (spellUsable w) (KILL_COMMAND_CAST_BM_id cfg)"
    and "remaining = cooldownRemaining deps (spellUsable w) (KILL_COMMAND_CAST_BM_id cfg)"
    and "gcdMs = getGlobalCooldownDuration deps (globalCooldown w) (COBRA_SHOT_id cfg)"
    and "remaining < gcdMs"
    and "0 \<le> COBRA_SHOT_CDR_MS cfg"
    and "onCobraShotCast cfg deps event w = (event', w')"
  shows "remaining - gcdMs < 0
       \<and> reduceCalls w' = reduceCalls w @
           [\<lparr>callSpellId = KILL_COMMAND_CAST_BM_id cfg, callReductionMs = remaining - gcdMs\<rparr>]
       \<and> spellUsable w'
           = snd (reduceCooldown deps (spellUsable w) (KILL_COMMAND_CAST_BM_id cfg) (remaining - gcdMs))"
  using assms
  by (auto simp: onCobraShotCast_def Let_def split: prod.splits option.splits if_splits)

theorem negative_reduction_passed_unclamped_witness:
  "tracker_isOnCooldown (spellUsable (exampleWorld (Some 500) 1500)) 34026
   \<and> tracker_cooldownRemaining (spellUsable (exampleWorld (Some 500) 1500)) 34026 = 500
   \<and> (500::real) < 1500
   \<and> reduceCalls (snd (onCobraShotCast exampleConstants trackerDeps (exampleEvent None)
                     (exampleWorld (Some 500) 1500)))
       = [\<lparr>callSpellId = 34026, callReductionMs = - 1000\<rparr>]"
proof -
  let ?w = "exampleWorld (Some 500) 1500"
  let ?res = "onCobraShotCast exampleConstants trackerDeps (exampleEvent None) ?w"
  have on: "isOnCooldown trackerDeps (spellUsable ?w) (KILL_COMMAND_CAST_BM_id exampleConstants)"
    by (simp add: example_defs)
  have rem: "(500::real) = cooldownRemaining trackerDeps (spellUsable ?w)
               (KILL_COMMAND_CAST_BM_id exampleConstants)"
    by (simp add: example_defs)
  have g: "(1500::real) = getGlobalCooldownDuration trackerDeps (globalCooldown ?w)
               (COBRA_SHOT_id exampleConstants)"
    by (simp add: example_defs)
  have lt: "(500::real) < 1500"
    by simp
  have cdr: "0 \<le> COBRA_SHOT_CDR_MS exampleConstants"
    by (simp add: example_defs)
  have res: "?res = (fst ?res, snd ?res)"
    by simp
  note passed = negative_reduction_passed_unclamped [OF on rem g lt cdr res]
  from passed have calls: "reduceCalls (snd ?res)
       = [\<lparr>callSpellId = 34026, callReductionMs = - 1000\<rparr>]"
    by (simp add: exampleWorld_def exampleConstants_def)
  show ?thesis
    using on rem calls by (simp add: trackerDeps_def exampleConstants_def)
qed

subsection \<open>Replays\<close>

lemma beforeCast_self: "self (beforeCast st w) = self w"
  by (simp add: beforeCast_def split: prod.splits)

lemma beforeCast_reduceCalls: "reduceCalls (beforeCast st w) = reduceCalls w"
  by (simp add: beforeCast_def split: prod.splits)

lemma beforeCast_heap: "heap (beforeCast st w) = heap w"
  by (simp add: beforeCast_def split: prod.splits)

lemma onCobraShotCast_casts:
  "casts (self (snd (onCobraShotCast cfg deps event w))) = casts (self w) + 1"
  by (simp add: onCobraShotCast_def Let_def split: prod.splits option.splits)

lemma onCobraShotCast_wastedCasts:
  "wastedCasts (self (snd (onCobraShotCast cfg deps event w)))
     = wastedCasts (self w)
       + (if isOnCooldown deps (spellUsable w) (KILL_COMMAND_CAST_BM_id cfg) then 0 else 1)"
  by (simp add: onCobraShotCast_def Let_def split: prod.splits option.splits)

lemma replay_casts_split:
  "casts (self (replay cfg deps w sts)) + wastedCasts (self w)
     = wastedCasts (self (replay cfg deps w sts)) + castsOnCooldown cfg deps w sts + casts (self w)"
proof (induction sts arbitrary: w)
  case Nil
  show ?case by simp
next
  case (Cons st sts)
  let ?w1 = "beforeCast st w"
  let ?w2 = "snd (onCobraShotCast cfg deps (cast st) ?w1)"
  have c: "casts (self ?w2) = casts (self w) + 1"
    by (simp add: onCobraShotCast_casts beforeCast_self)
  have wc: "wastedCasts (self ?w2) = wastedCasts (self w)
       + (if isOnCooldown deps (spellUsable ?w1) (KILL_COMMAND_CAST_BM_id cfg) then 0 else 1)"
    by (simp add: onCobraShotCast_wastedCasts beforeCast_self)
  from Cons.IH [of ?w2] c wc show ?case
    by (simp split: if_splits)
qed

text \<open>
  C4. After any sequence of casts processed from the start of a session (all counters
  zero), the total-cast counter equals the wasted-cast counter plus the number of casts at
  which Kill Command was on cooldown.
\<close>

theorem total_casts_split:
  "casts (self (replay cfg deps (w\<lparr>self := CobraShot_init\<rparr>) sts))
     = wastedCasts (self (replay cfg deps (w\<lparr>self := CobraShot_init\<rparr>) sts))
       + castsOnCooldown cfg deps (w\<lparr>self := CobraShot_init\<rparr>) sts"
  using replay_casts_split [of cfg deps "w\<lparr>self := CobraShot_init\<rparr>" sts]
  by (simp add: CobraShot_init_def)

lemmas step_defs = exampleStep_def beforeCast_def onCobraShotCast_def ensureMeta_def Let_def

theorem total_casts_split_witness:
  "casts (self (replay exampleConstants trackerDeps (exampleWorld None 1500)
       [exampleStep (Some 4000) None, exampleStep None None, exampleStep (Some 500) None])) = 3
   \<and> wastedCasts (self (replay exampleConstants trackerDeps (exampleWorld None 1500)
       [exampleStep (Some 4000) None, exampleStep None None, exampleStep (Some 500) None])) = 1
   \<and> castsOnCooldown exampleConstants trackerDeps (exampleWorld None 1500)
       [exampleStep (Some 4000) None, exampleStep None None, exampleStep (Some 500) None] = 2"
proof -
  let ?w = "exampleWorld None 1500"
  let ?sts = "[exampleStep (Some 4000) None, exampleStep None None, exampleStep (Some 500) None]"
  have w: "?w\<lparr>self := CobraShot_init\<rparr> = ?w"
    by (simp add: exampleWorld_def)
  have wasted: "wastedCasts (self (replay exampleConstants trackerDeps ?w ?sts)) = 1"
    by (simp add: step_defs example_defs)
  have onCd: "castsOnCooldown exampleConstants trackerDeps ?w ?sts = 2"
    by (simp add: step_defs example_defs)
  show ?thesis
    using total_casts_split [of exampleConstants trackerDeps ?w ?sts] wasted onCd
    by (simp add: w)
qed

lemma replay_append:
  "replay cfg deps w (pre @ sts) = replay cfg deps (replay cfg deps w pre) sts"
  by (induction pre arbitrary: w) simp_all

lemma onCobraShotCast_calls:
  assumes "0 \<le> getGlobalCooldownDuration deps (globalCooldown w) (COBRA_SHOT_id cfg)"
  shows "\<exists>new. reduceCalls (snd (onCobraShotCast cfg deps event w)) = reduceCalls w @ new
           \<and> length new \<le> 1
           \<and> (\<forall>c \<in> set new. callSpellId c = KILL_COMMAND_CAST_BM_id cfg
                \<and> callReductionMs c
                    \<le> cooldownRemaining deps (spellUsable w) (KILL_COMMAND_CAST_BM_id cfg))"
  using assms
  by (auto simp: onCobraShotCast_def Let_def split: prod.splits option.splits)

text \<open>
  C8. The handler never commands a reduction of Kill Command's cooldown by more than the
  remaining cooldown it has just read. For every cast of every sequence (a cast \<open>st\<close> after
  any processed prefix \<open>pre\<close>, from any start), the cast adds at most one call to the log, on
  Kill Command, and its amount is at most Kill Command's remaining cooldown at that cast.
  Global-cooldown durations are not negative.
\<close>

theorem reduction_never_exceeds_remaining:
  assumes "w1 = beforeCast st (replay cfg deps w pre)"
    and "0 \<le> getGlobalCooldownDuration deps (globalCooldown w1) (COBRA_SHOT_id cfg)"
    and "onCobraShotCast cfg deps (cast st) w1 = (event', w2)"
  shows "replay cfg deps w (pre @ [st]) = w2
       \<and> (\<exists>new. reduceCalls w2 = reduceCalls w1 @ new
             \<and> length new \<le> 1
             \<and> (\<forall>c \<in> set new. callSpellId c = KILL_COMMAND_CAST_BM_id cfg
                  \<and> callReductionMs c
                      \<le> cooldownRemaining deps (spellUsable w1) (KILL_COMMAND_CAST_BM_id cfg)))"
proof -
  from onCobraShotCast_calls [OF assms(2), of "cast st"] assms(3)
  have "\<exists>new. reduceCalls w2 = reduceCalls w1 @ new
             \<and> length new \<le> 1
             \<and> (\<forall>c \<in> set new. callSpellId c = KILL_COMMAND_CAST_BM_id cfg
                  \<and> callReductionMs c
                      \<le> cooldownRemaining deps (spellUsable w1) (KILL_COMMAND_CAST_BM_id cfg))"
    by simp
  moreover have "replay cfg deps w (pre @ [st]) = w2"
    using assms(1,3) by (simp add: replay_append)
  ultimately show ?thesis by simp
qed

theorem reduction_never_exceeds_remaining_witness:
  "0 \<le> getGlobalCooldownDuration trackerDeps
          (globalCooldown (beforeCast (exampleStep (Some 2000) None)
             (replay exampleConstants trackerDeps (exampleWorld None 1500)
                [exampleStep (Some 4000) None])))
          (COBRA_SHOT_id exampleConstants)
   \<and> reduceCalls (replay exampleConstants trackerDeps (exampleWorld None 1500)
        [exampleStep (Some 4000) None, exampleStep (Some 2000) None])
       = [\<lparr>callSpellId = 34026, callReductionMs = 1000\<rparr>,
          \<lparr>callSpellId = 34026, callReductionMs = 500\<rparr>]
   \<and> cooldownRemaining trackerDeps
          (spellUsable (beforeCast (exampleStep (Some 2000) None)
             (replay exampleConstants trackerDeps (exampleWorld None 1500)
                [exampleStep (Some 4000) None])))
          (KILL_COMMAND_CAST_BM_id exampleConstants) = 2000"
proof -
  let ?w = "exampleWorld None 1500"
  let ?pre = "[exampleStep (Some 4000) None]"
  let ?st = "exampleStep (Some 2000) None"
  let ?w1 = "beforeCast ?st (replay exampleConstants trackerDeps ?w ?pre)"
  let ?res = "onCobraShotCast exampleConstants trackerDeps (cast ?st) ?w1"
  have g: "0 \<le> getGlobalCooldownDuration trackerDeps (globalCooldown ?w1)
             (COBRA_SHOT_id exampleConstants)"
    by (simp add: step_defs example_defs)
  have res: "?res = (fst ?res, snd ?res)"
    by simp
  have w1: "reduceCalls ?w1 = [\<lparr>callSpellId = 34026, callReductionMs = 1000\<rparr>]"
    by (simp add: step_defs example_defs)
  have rem: "cooldownRemaining trackerDeps (spellUsable ?w1)
               (KILL_COMMAND_CAST_BM_id exampleConstants) = 2000"
    by (simp add: step_defs example_defs)
  have snd_res: "reduceCalls (snd ?res)
       = reduceCalls ?w1 @ [\<lparr>callSpellId = 34026, callReductionMs = 500\<rparr>]"
    by (simp add: step_defs example_defs)
  from reduction_never_exceeds_remaining [OF refl g res]
  have "replay exampleConstants trackerDeps ?w (?pre @ [?st]) = snd ?res"
    by simp
  with g w1 rem snd_res show ?thesis
    by simp
qed

subsection \<open>The annotation of the event\<close>

text \<open>
  C10. After the handler has processed a cast, the event's annotation is defined. An event
  that came without annotation refers to a new object, created as
  \<open>{ isInefficientCast: false, inefficientCastReason: '' }\<close> before the cast is classified
  (all older objects are untouched): a cast that is not classified inefficient keeps that
  explicit annotation, as the cast with a remaining cooldown of at least reduction plus
  global cooldown does. An annotation object that was already there is never replaced: the
  event keeps its reference, the store keeps its size, every other object is untouched, and
  of the object itself at most the two fields are overwritten.
\<close>

theorem meta_defined_after_cast:
  assumes "metaLive (heap w) event"
    and "onCobraShotCast cfg deps event w = (event', w')"
  shows "\<exists>r. meta event' = Some r \<and> r < length (heap w')
     \<and> (case meta event of
          None \<Rightarrow>
            r = length (heap w) \<and> length (heap w') = length (heap w) + 1
            \<and> take (length (heap w)) (heap w') = heap w
            \<and> (heap w' ! r = freshMeta
                \<or> (\<exists>reason. heap w' ! r
                      = \<lparr>isInefficientCast = Some True, inefficientCastReason = Some reason,
                         otherProps = Map.empty\<rparr>))
            \<and> (isOnCooldown deps (spellUsable w) (KILL_COMMAND_CAST_BM_id cfg)
                \<and> COBRA_SHOT_CDR_MS cfg
                     + getGlobalCooldownDuration deps (globalCooldown w) (COBRA_SHOT_id cfg)
                   \<le> cooldownRemaining deps (spellUsable w) (KILL_COMMAND_CAST_BM_id cfg)
                \<longrightarrow> heap w' ! r = freshMeta)
        | Some r0 \<Rightarrow>
            r = r0 \<and> length (heap w') = length (heap w)
            \<and> (\<forall>i < length (heap w). i \<noteq> r0 \<longrightarrow> heap w' ! i = heap w ! i)
            \<and> (heap w' ! r0 = heap w ! r0
                \<or> (\<exists>reason. heap w' ! r0
                      = (heap w ! r0)\<lparr>isInefficientCast := Some True,
                                        inefficientCastReason := Some reason\<rparr>)))"
  using assms
  by (auto simp: onCobraShotCast_def Let_def ensureMeta_def metaLive_def markInefficient_def
      freshMeta_def nth_append split: prod.splits option.splits if_splits)

theorem meta_defined_after_cast_witness:
  "metaLive (heap (exampleWorld (Some 4000) 1500)) (exampleEvent None)
   \<and> meta (exampleEvent None) = None
   \<and> meta (fst (onCobraShotCast exampleConstants trackerDeps (exampleEvent None)
                (exampleWorld (Some 4000) 1500))) = Some 0
   \<and> heap (snd (onCobraShotCast exampleConstants trackerDeps (exampleEvent None)
                (exampleWorld (Some 4000) 1500)))
       = [\<lparr>isInefficientCast = Some False, inefficientCastReason = Some [],
           otherProps = Map.empty\<rparr>]
   \<and> metaLive [\<lparr>isInefficientCast = None, inefficientCastReason = None,
                  otherProps = [''isEnhancedCast'' \<mapsto> ()]\<rparr>]
         ((exampleEvent None)\<lparr>meta := Some 0\<rparr>)
   \<and> meta (fst (onCobraShotCast exampleConstants trackerDeps ((exampleEvent None)\<lparr>meta := Some 0\<rparr>)
         ((exampleWorld None 1500)
            \<lparr>heap := [\<lparr>isInefficientCast = None, inefficientCastReason = None,
                        otherProps = [''isEnhancedCast'' \<mapsto> ()]\<rparr>]\<rparr>))) = Some 0
   \<and> otherProps (heap (snd (onCobraShotCast exampleConstants trackerDeps
         ((exampleEvent None)\<lparr>meta := Some 0\<rparr>)
         ((exampleWorld None 1500)
            \<lparr>heap := [\<lparr>isInefficientCast = None, inefficientCastReason = None,
                        otherProps = [''isEnhancedCast'' \<mapsto> ()]\<rparr>]\<rparr>))) ! 0)
       = [''isEnhancedCast'' \<mapsto> ()]"
proof -
  let ?w = "exampleWorld (Some 4000) 1500"
  let ?res = "onCobraShotCast exampleConstants trackerDeps (exampleEvent None) ?w"
  have live: "metaLive (heap ?w) (exampleEvent None)"
    by (simp add: metaLive_def example_defs)
  have no_meta: "meta (exampleEvent None) = None"
    by (simp add: exampleEvent_def)
  have res: "?res = (fst ?res, snd ?res)"
    by simp
  have h: "heap ?w = []"
    by (simp add: exampleWorld_def)
  have efficient: "isOnCooldown trackerDeps (spellUsable ?w) (KILL_COMMAND_CAST_BM_id exampleConstants)
      \<and> COBRA_SHOT_CDR_MS exampleConstants
           + getGlobalCooldownDuration trackerDeps (globalCooldown ?w) (COBRA_SHOT_id exampleConstants)
         \<le> cooldownRemaining trackerDeps (spellUsable ?w) (KILL_COMMAND_CAST_BM_id exampleConstants)"
    by (simp add: example_defs)
  from meta_defined_after_cast [OF live res] efficient
  have r: "meta (fst ?res) = Some 0" and len: "length (heap (snd ?res)) = 1"
    and obj: "heap (snd ?res) ! 0 = freshMeta"
    by (auto simp: no_meta h)
  from len obj have fresh: "heap (snd ?res) = [freshMeta]"
    by (cases "heap (snd ?res)") auto
  let ?m = "\<lparr>isInefficientCast = None, inefficientCastReason = None,
             otherProps = [''isEnhancedCast'' \<mapsto> ()]\<rparr>"
  let ?e = "(exampleEvent None)\<lparr>meta := Some 0\<rparr>"
  let ?v = "(exampleWorld None 1500)\<lparr>heap := [?m]\<rparr>"
  let ?res' = "onCobraShotCast exampleConstants trackerDeps ?e ?v"
  have live': "metaLive (heap ?v) ?e"
    by (simp add: metaLive_def)
  have res': "?res' = (fst ?res', snd ?res')"
    by simp
  from meta_defined_after_cast [OF live' res']
  have r': "meta (fst ?res') = Some 0"
    and obj': "otherProps (heap (snd ?res') ! 0) = otherProps ?m"
    by auto
  from live no_meta r fresh live' r' obj' show ?thesis
    by (simp add: freshMeta_def)
qed

subsection \<open>How the counters move\<close>

text \<open>
  The two cast counters and the wasted total never decrease (the reduction per cast is not
  negative). The effective total moves by exactly the amount the tracker reports, so it
  does not decrease as long as that amount is not negative; with the tracker above this is
  so when the remaining cooldown is at least the global cooldown.
\<close>

lemma onCobraShotCast_wastedKCReductionMs_mono:
  assumes "0 \<le> COBRA_SHOT_CDR_MS cfg"
  shows "wastedKCReductionMs (self w)
           \<le> wastedKCReductionMs (self (snd (onCobraShotCast cfg deps event w)))"
  using assms
  by (auto simp: onCobraShotCast_def Let_def split: prod.splits option.splits)

lemma onCobraShotCast_counts_mono:
  "casts (self w) \<le> casts (self (snd (onCobraShotCast cfg deps event w)))
   \<and> wastedCasts (self w) \<le> wastedCasts (self (snd (onCobraShotCast cfg deps event w)))"
  by (simp add: onCobraShotCast_casts onCobraShotCast_wastedCasts)

lemma onCobraShotCast_effectiveKCReductionMs:
  "effectiveKCReductionMs (self (snd (onCobraShotCast cfg deps event w)))
     = effectiveKCReductionMs (self w)
       + (if \<not> isOnCooldown deps (spellUsable w) (KILL_COMMAND_CAST_BM_id cfg) then 0
          else fst (reduceCooldown deps (spellUsable w) (KILL_COMMAND_CAST_BM_id cfg)
                 (let remaining = cooldownRemaining deps (spellUsable w) (KILL_COMMAND_CAST_BM_id cfg);
                      gcdMs = getGlobalCooldownDuration deps (globalCooldown w) (COBRA_SHOT_id cfg)
                  in if remaining < COBRA_SHOT_CDR_MS cfg + gcdMs then remaining - gcdMs
                     else COBRA_SHOT_CDR_MS cfg)))"
  by (auto simp: onCobraShotCast_def Let_def split: prod.splits option.splits)

lemma tracker_effectiveKCReductionMs_mono:
  assumes "0 \<le> COBRA_SHOT_CDR_MS cfg"
    and "0 \<le> g"
    and "\<forall>remaining. s (KILL_COMMAND_CAST_BM_id cfg) = Some remaining \<longrightarrow> g \<le> remaining"
    and "spellUsable w = s" and "globalCooldown w = g"
  shows "effectiveKCReductionMs (self w)
           \<le> effectiveKCReductionMs (self (snd (onCobraShotCast cfg trackerDeps event w)))"
  using assms
  by (auto simp: onCobraShotCast_effectiveKCReductionMs Let_def trackerDeps_def
      tracker_isOnCooldown_def tracker_cooldownRemaining_def tracker_reduceCooldown_def
      split: option.splits)

text \<open>
  C7. Each of the four counters is non-decreasing across every processed cast. The handler
  keeps this for three of them (the lemmas above), not for the effective total: a cast at
  500 ms of remaining cooldown under a global cooldown of 1500 ms takes the overflow branch,
  requests a reduction of -1000 ms, and the effective total falls from 0 to -1000.
\<close>

theorem effective_total_decreases_example:
  "effectiveKCReductionMs (self (exampleWorld (Some 500) 1500)) = 0
   \<and> effectiveKCReductionMs (self (snd (onCobraShotCast exampleConstants trackerDeps
         (exampleEvent None) (exampleWorld (Some 500) 1500)))) = - 1000"
  by (simp add: onCobraShotCast_effectiveKCReductionMs example_defs)

subsection \<open>The efficiency ratio\<close>

text \<open>
  The denominator is at least 1, so the ratio is at most 1 when the effective total does
  not exceed it, and at least 0 when the effective total is not negative.
\<close>

lemma totalPossibleCDR_pos: "1 \<le> totalPossibleCDR cfg a"
  by (simp add: totalPossibleCDR_def)

lemma cdrEfficiency_le_1:
  assumes "effectiveKCReductionMs a \<le> totalPossibleCDR cfg a"
  shows "cdrEfficiencyCobraShotThreshold_actual cfg a \<le> 1"
proof -
  have "0 < totalPossibleCDR cfg a"
    using totalPossibleCDR_pos [of cfg a] by simp
  with assms show ?thesis
    by (simp add: cdrEfficiencyCobraShotThreshold_actual_def divide_le_eq_1)
qed

lemma cdrEfficiency_ge_0:
  assumes "0 \<le> effectiveKCReductionMs a"
  shows "0 \<le> cdrEfficiencyCobraShotThreshold_actual cfg a"
proof -
  have "0 < totalPossibleCDR cfg a"
    using totalPossibleCDR_pos [of cfg a] by simp
  with assms show ?thesis
    by (simp add: cdrEfficiencyCobraShotThreshold_actual_def)
qed

text \<open>
  C5. The efficiency ratio lies between 0 and 1 whenever the effective total does not
  exceed the total possible reduction. The upper bound holds (\<open>cdrEfficiency_le_1\<close>); the
  lower bound is lost when the effective total is negative: after the single cast at 500 ms
  of remaining cooldown under a global cooldown of 1500 ms the effective total, -1000, is
  below the total possible reduction, 1000, and the ratio is -1.
\<close>

theorem efficiency_ratio_negative_example:
  "effectiveKCReductionMs (self (replay exampleConstants trackerDeps (exampleWorld None 1500)
       [exampleStep (Some 500) None]))
     \<le> totalPossibleCDR exampleConstants (self (replay exampleConstants trackerDeps
           (exampleWorld None 1500) [exampleStep (Some 500) None]))
   \<and> cdrEfficiencyCobraShotThreshold_actual exampleConstants
       (self (replay exampleConstants trackerDeps (exampleWorld None 1500)
          [exampleStep (Some 500) None])) = - 1"
  by (simp add: cdrEfficiencyCobraShotThreshold_actual_def totalPossibleCDR_def
      step_defs example_defs)

subsection \<open>The low-focus annotation of the overflow branch\<close>

text \<open>
  Without a focus entry in the event's resources the overflow branch ends after the
  counters are updated and leaves the annotation alone. With an entry the cast is marked
  inefficient exactly when the amount is below the threshold, with the message built by
  \<open>lowFocusReason\<close>.
\<close>

lemma overflow_without_focus_entry:
  assumes "isOnCooldown deps (spellUsable w) (KILL_COMMAND_CAST_BM_id cfg)"
    and "cooldownRemaining deps (spellUsable w) (KILL_COMMAND_CAST_BM_id cfg)
           < COBRA_SHOT_CDR_MS cfg
             + getGlobalCooldownDuration deps (globalCooldown w) (COBRA_SHOT_id cfg)"
    and "(case classResources event of
            None \<Rightarrow> None
          | Some rs \<Rightarrow> find (\<lambda>resource. rtype resource = FOCUS_id cfg) rs) = None"
    and "onCobraShotCast cfg deps event w = (event', w')"
  shows "heap w' = snd (ensureMeta event (heap w))
       \<and> meta event' = Some (fst (ensureMeta event (heap w)))
       \<and> casts (self w') = casts (self w) + 1
       \<and> wastedCasts (self w') = wastedCasts (self w)
       \<and> length (reduceCalls w') = length (reduceCalls w) + 1"
  using assms
  by (auto simp: onCobraShotCast_def Let_def split: prod.splits option.splits if_splits)

lemma overflow_low_focus:
  assumes "isOnCooldown deps (spellUsable w) (KILL_COMMAND_CAST_BM_id cfg)"
    and "gcdMs = getGlobalCooldownDuration deps (globalCooldown w) (COBRA_SHOT_id cfg)"
    and "cooldownRemaining deps (spellUsable w) (KILL_COMMAND_CAST_BM_id cfg)
           < COBRA_SHOT_CDR_MS cfg + gcdMs"
    and "classResources event = Some rs"
    and "find (\<lambda>resource. rtype resource = FOCUS_id cfg) rs = Some resource"
    and "metaLive (heap w) event"
    and "onCobraShotCast cfg deps event w = (event', w')"
  shows "\<exists>r. meta event' = Some r \<and> r < length (heap w')
          \<and> (if amount resource < COBRA_SHOT_FOCUS_THRESHOLD_TO_WAIT cfg
              then isInefficientCast (heap w' ! r) = Some True
                 \<and> inefficientCastReason (heap w' ! r)
                     = Some (lowFocusReason cfg gcdMs (amount resource))
              else heap w' = snd (ensureMeta event (heap w)))"
  using assms
  by (auto simp: onCobraShotCast_def Let_def ensureMeta_def metaLive_def markInefficient_def
      nth_append split: prod.splits option.splits if_splits)

text \<open>
  The overflow branch is entered below a remaining cooldown of reduction plus global
  cooldown, both in milliseconds. The number in the message is the global cooldown in
  milliseconds plus the reduction in seconds; it is the cutoff in seconds only for a global
  cooldown of zero.
\<close>

lemma reason_number_is_cutoff_iff:
  "g + c / 1000 = (c + g) / (1000::real) \<longleftrightarrow> g = 0"
  by (simp add: field_simps)

lemma toFixed1_1501: "toFixed1 (1500 + 1000 / 1000) = ''1501.0''"
  by (simp add: toFixed1_def Let_def decimal_digit decimal_step digit_char_def)

lemma numberToString_10: "numberToString 10 = ''10''"
  by (simp add: numberToString_def decimal_digit decimal_step digit_char_def)

text \<open>
  C9. In the overflow branch a missing focus entry skips the annotation without failure
  (\<open>overflow_without_focus_entry\<close>), and an entry below the threshold marks the cast
  inefficient (\<open>overflow_low_focus\<close>) with a message citing the remaining-cooldown cutoff
  and the focus amount. The message does not cite the cutoff: at 2000 ms remaining, a
  global cooldown of 1500 ms and 10 focus the cast is in the overflow branch because
  2000 < 1000 + 1500, a cutoff of 2.5 s, and the message reads "under 1501.0s remaining".
\<close>

theorem low_focus_reason_example:
  "(2000::real) < COBRA_SHOT_CDR_MS exampleConstants + 1500
   \<and> toFixed1 ((COBRA_SHOT_CDR_MS exampleConstants + 1500) / 1000) = ''2.5''
   \<and> inefficientCastReason (heap (snd (onCobraShotCast exampleConstants trackerDeps
         (exampleEvent (Some 10)) (exampleWorld (Some 2000) 1500))) ! 0)
       = Some ''Cobra Shot cast while Kill Command's cooldown was under 1501.0s remaining and you were not close to capping focus as you only had 10 focus.''"
proof -
  have cutoff: "toFixed1 ((COBRA_SHOT_CDR_MS exampleConstants + 1500) / 1000) = ''2.5''"
    by (simp add: exampleConstants_def toFixed1_def Let_def decimal_digit digit_char_def)
  have reason: "lowFocusReason exampleConstants 1500 10
       = ''Cobra Shot cast while Kill Command's cooldown was under 1501.0s remaining and you were not close to capping focus as you only had 10 focus.''"
    using toFixed1_1501 numberToString_10
    by (simp add: lowFocusReason_def exampleConstants_def)
  have "inefficientCastReason (heap (snd (onCobraShotCast exampleConstants trackerDeps
         (exampleEvent (Some 10)) (exampleWorld (Some 2000) 1500))) ! 0)
       = Some (lowFocusReason exampleConstants 1500 10)"
    by (simp add: onCobraShotCast_def Let_def ensureMeta_def markInefficient_def example_defs)
  with cutoff reason show ?thesis
    by (simp add: exampleConstants_def)
qed

end
